theory Spec2Isabelle
  imports Main
begin

section \<open>Python values used by \<open>main.py\<close>\<close>

text \<open>
  A Python \<open>str\<close> is a sequence of Unicode code points; it is modelled as a list of
  naturals so that text extracted from a PDF or produced by the generation step is not
  restricted to one byte per character. \<open>lit\<close> embeds the ASCII literals of the source.
\<close>

type_synonym pystr = "nat list"

definition lit :: "string \<Rightarrow> pystr" where
  "lit s = map of_char s"

text \<open>\<open>str(n)\<close> for a non-negative integer, as the f-strings of the source format
  \<open>len(documents)\<close>, \<open>count\<close> and the block number.\<close>

fun str_nat :: "nat \<Rightarrow> pystr" where
  "str_nat n = (if n < 10 then [48 + n] else str_nat (n div 10) @ [48 + n mod 10])"

declare str_nat.simps [simp del]

text \<open>\<open>str.isspace\<close> on one code point (the whitespace table of the Python runtime) and
  \<open>str.strip()\<close> with no argument.\<close>

definition isspace :: "nat \<Rightarrow> bool" where
  "isspace c \<longleftrightarrow>
     (9 \<le> c \<and> c \<le> 13) \<or> (28 \<le> c \<and> c \<le> 32) \<or> c = 133 \<or> c = 160 \<or> c = 5760 \<or>
     (8192 \<le> c \<and> c \<le> 8202) \<or> c = 8232 \<or> c = 8233 \<or> c = 8239 \<or> c = 8287 \<or> c = 12288"

definition strip :: "pystr \<Rightarrow> pystr" where
  "strip s = rev (dropWhile isspace (rev (dropWhile isspace s)))"

text \<open>\<open>sub in s\<close> on strings: \<open>sub\<close> occurs as a contiguous substring of \<open>s\<close>.\<close>

definition startswith :: "pystr \<Rightarrow> pystr \<Rightarrow> bool" where
  "startswith s sub \<longleftrightarrow> take (length sub) s = sub"

fun py_in :: "pystr \<Rightarrow> pystr \<Rightarrow> bool" where
  "py_in sub [] = (sub = [])"
| "py_in sub (c # cs) = (startswith (c # cs) sub \<or> py_in sub cs)"

subsection \<open>Exceptions\<close>

text \<open>
  The exception values of the model are the instances of \<open>Exception\<close> (every handler of
  the source is \<open>except Exception\<close> or \<open>except ConnectionFailure\<close>). An exception carries
  its class and the text \<open>str(e)\<close> that the f-strings of the handlers print.
  \<open>ConnectionFailure\<close> stands for the pymongo class and its subclasses.
\<close>

datatype exc_class = ValueError | ConnectionFailure | AttributeError | OtherException pystr

datatype exc = Exc (exc_class: exc_class) (exc_str: pystr)

subsection \<open>Objects of the libraries\<close>

text \<open>
  The objects that the libraries hand back are named by the constructor call that made
  them, so that a later call on an object shows how the object was configured.
\<close>

datatype client = MongoClient pystr

datatype database = Database client pystr

datatype collection = Collection database pystr

datatype gridfs = GridFS database

datatype embed_model = OpenAIEmbedding pystr nat

record vs_kwargs =
  mongo_client :: client
  db_name :: pystr
  collection_name :: pystr
  vector_index_name :: pystr
  exact :: pystr

datatype vector_store = MongoDBAtlasVectorSearch vs_kwargs

datatype storage_context = StorageContext vector_store

datatype document = Document pystr

datatype index =
    FromDocuments "document list" storage_context bool
  | FromVectorStore vector_store embed_model

datatype query_engine = QueryEngine index nat bool

record node_with_score =
  node_content :: pystr
  node_metadata :: "(pystr \<times> pystr) list"
  node_score :: int

record response =
  response_str :: pystr
  source_nodes :: "node_with_score list"

record uploaded_file =
  file_name :: pystr
  file_bytes :: "nat list"

record settings =
  embed_model_setting :: "embed_model option"
  chunk_size :: nat
  chunk_overlap :: nat

section \<open>Effects\<close>

text \<open>
  Every call that leaves the program is recorded in a trace, in program order: calls
  into the libraries and the operating system (\<open>Call\<close>), lines written by \<open>print\<close>
  and calls that render into the Streamlit page (\<open>UI\<close>).
\<close>

datatype ext_call =
    Load_dotenv
  | Getenv pystr
  | MongoClient_init pystr
  | Admin_command client pystr
  | GridFS_init database
  | OpenAIEmbedding_init pystr nat
  | MongoDBAtlasVectorSearch_init vs_kwargs
  | StorageContext_from_defaults vector_store
  | NamedTemporaryFile_init bool pystr
  | Temp_write pystr "nat list"
  | Temp_close pystr
  | Load_data "pystr list"
  | From_documents "document list" storage_context bool
  | Persist storage_context
  | Os_unlink pystr
  | Count_documents collection
  | From_vector_store vector_store embed_model
  | As_query_engine index nat bool
  | Query query_engine pystr
  | Get_content node_with_score

datatype ui_call =
    St_title pystr
  | St_file_uploader pystr pystr
  | St_spinner pystr
  | St_success pystr
  | St_error pystr
  | St_write "pystr list"
  | St_markdown pystr
  | St_text_input pystr

datatype event = Print pystr | Call ext_call | UI ui_call

text \<open>
  The state a run threads through: the trace, the files on disk (path to content) and
  the process-wide \<open>Settings\<close> object of the indexing library.
\<close>

record state =
  trace :: "event list"
  files :: "pystr \<rightharpoonup> nat list"
  settings :: settings

text \<open>
  The world fixes what lies outside the program for one run of the script: which
  external calls raise (\<open>fails\<close>, \<open>None\<close> when the call returns), the environment
  after \<open>load_dotenv\<close>, the name the operating system picks for the temporary file,
  what the reader extracts, what the collection counts, what a query engine answers,
  and what the user uploaded and typed.
\<close>

record world =
  fails :: "ext_call \<Rightarrow> exc option"
  environ :: "pystr \<Rightarrow> pystr option"
  temp_name :: pystr
  documents_of :: "pystr list \<Rightarrow> document list"
  document_count :: nat
  answer_of :: "query_engine \<Rightarrow> pystr \<Rightarrow> response"
  uploaded :: "uploaded_file option"
  typed_query :: pystr

text \<open>A computation takes the state and returns a value or a raised exception, with
  the state it leaves behind.\<close>

type_synonym 'a prog = "state \<Rightarrow> (exc + 'a) \<times> state"

definition ret :: "'a \<Rightarrow> 'a prog" where
  "ret v s = (Inr v, s)"

definition raise :: "exc \<Rightarrow> 'a prog" where
  "raise e s = (Inl e, s)"

definition bind :: "'a prog \<Rightarrow> ('a \<Rightarrow> 'b prog) \<Rightarrow> 'b prog" where
  "bind m f s = (case m s of (Inl e, s') \<Rightarrow> (Inl e, s') | (Inr v, s') \<Rightarrow> f v s')"

text \<open>\<open>try: m except Exception as e: h e\<close>.\<close>

definition try_except :: "'a prog \<Rightarrow> (exc \<Rightarrow> 'a prog) \<Rightarrow> 'a prog" where
  "try_except m h s = (case m s of (Inl e, s') \<Rightarrow> h e s' | (Inr v, s') \<Rightarrow> (Inr v, s'))"

text \<open>Leaving a \<open>with\<close> block: \<open>c\<close> runs whether or not the block raised, and the
  block's exception (if any) continues afterwards.\<close>

definition on_exit :: "'a prog \<Rightarrow> unit prog \<Rightarrow> 'a prog" where
  "on_exit m c s =
     (case m s of (r, s') \<Rightarrow>
        (case c s' of (Inl e, s'') \<Rightarrow> (Inl e, s'') | (Inr _, s'') \<Rightarrow> (r, s'')))"

definition log :: "event \<Rightarrow> state \<Rightarrow> state" where
  "log ev s = s\<lparr>trace := trace s @ [ev]\<rparr>"

definition print :: "pystr \<Rightarrow> unit prog" where
  "print line s = (Inr (), log (Print line) s)"

definition ui :: "ui_call \<Rightarrow> unit prog" where
  "ui c s = (Inr (), log (UI c) s)"

definition modify :: "(state \<Rightarrow> state) \<Rightarrow> unit prog" where
  "modify f s = (Inr (), f s)"

text \<open>
  \<open>print\<close> and the calls that draw the page are taken to return: they only extend the
  trace. An external call \<open>c\<close> returns \<open>v\<close> unless the world makes it raise.
\<close>

definition extern :: "world \<Rightarrow> ext_call \<Rightarrow> 'a \<Rightarrow> 'a prog" where
  "extern w c v s =
     (case fails w c of Some e \<Rightarrow> (Inl e, log (Call c) s) | None \<Rightarrow> (Inr v, log (Call c) s))"

text \<open>An external call that cannot raise (\<open>load_dotenv\<close>, \<open>os.getenv\<close>).\<close>

definition extern_total :: "ext_call \<Rightarrow> 'a \<Rightarrow> 'a prog" where
  "extern_total c v s = (Inr v, log (Call c) s)"

subsection \<open>Temporary files\<close>

text \<open>
  \<open>tempfile.NamedTemporaryFile(delete=..., suffix=...)\<close> creates an empty file under a
  fresh name; writing replaces its content; closing removes it only when it was opened
  with \<open>delete=True\<close>; \<open>os.unlink\<close> removes it.
\<close>

definition NamedTemporaryFile :: "world \<Rightarrow> bool \<Rightarrow> pystr \<Rightarrow> pystr prog" where
  "NamedTemporaryFile w delete suffix =
     bind (extern w (NamedTemporaryFile_init delete suffix) (temp_name w)) (\<lambda>name.
     bind (modify (\<lambda>s. s\<lparr>files := (files s)(name \<mapsto> [])\<rparr>)) (\<lambda>_.
     ret name))"

definition temp_write :: "world \<Rightarrow> pystr \<Rightarrow> nat list \<Rightarrow> unit prog" where
  "temp_write w name data =
     bind (extern w (Temp_write name data) ()) (\<lambda>_.
     modify (\<lambda>s. s\<lparr>files := (files s)(name \<mapsto> data)\<rparr>))"

definition temp_close :: "world \<Rightarrow> bool \<Rightarrow> pystr \<Rightarrow> unit prog" where
  "temp_close w delete name =
     bind (extern w (Temp_close name) ()) (\<lambda>_.
     if delete then modify (\<lambda>s. s\<lparr>files := (files s)(name := None)\<rparr>) else ret ())"

definition os_unlink :: "world \<Rightarrow> pystr \<Rightarrow> unit prog" where
  "os_unlink w path =
     bind (extern w (Os_unlink path) ()) (\<lambda>_.
     modify (\<lambda>s. s\<lparr>files := (files s)(path := None)\<rparr>))"

section \<open>The program: \<open>main.py\<close>\<close>

text \<open>
  The functions below follow \<open>main.py\<close> top to bottom. The module-level objects
  (\<open>client\<close>, \<open>db\<close>, \<open>collection\<close>, \<open>fs\<close>, \<open>embed_model\<close>, \<open>vector_store\<close>,
  \<open>storage_context\<close>) are passed to the functions that read them as a record.
  \<open>@st.cache_resource\<close> is modelled on a cold cache: the decorated function runs.
\<close>

record ctx =
  client :: client
  db :: database
  collection :: collection
  fs :: gridfs
  embed_model :: embed_model
  vector_store :: vector_store
  storage_context :: storage_context

definition missing_uri_error :: exc where
  "missing_uri_error = Exc ValueError (lit ''MONGODB_URI not found in environment variables'')"

definition initialize_mongodb :: "world \<Rightarrow> client prog" where
  "initialize_mongodb w =
     bind (extern_total (Getenv (lit ''MONGODB_URI'')) (environ w (lit ''MONGODB_URI''))) (\<lambda>mongo_uri.
     case mongo_uri of
       None \<Rightarrow> raise missing_uri_error
     | Some uri \<Rightarrow>
         if uri = [] then raise missing_uri_error
         else
           bind (extern w (MongoClient_init uri) (MongoClient uri)) (\<lambda>client.
           bind (try_except
                  (bind (extern w (Admin_command client (lit ''ismaster'')) ()) (\<lambda>_.
                   print (lit ''[DEBUG] Successfully connected to MongoDB'')))
                  (\<lambda>e. if exc_class e = ConnectionFailure
                       then bind (print (lit ''[ERROR] Failed to connect to MongoDB: '' @ exc_str e)) (\<lambda>_.
                            raise e)
                       else raise e)) (\<lambda>_.
           ret client)))"

definition initialize_embed_model :: "world \<Rightarrow> embed_model prog" where
  "initialize_embed_model w =
     try_except
       (bind (extern w (OpenAIEmbedding_init (lit ''text-embedding-3-small'') 100)
                (OpenAIEmbedding (lit ''text-embedding-3-small'') 100)) (\<lambda>model.
        bind (print (lit ''[DEBUG] OpenAIEmbedding model initialized successfully'')) (\<lambda>_.
        ret model)))
       (\<lambda>e. bind (print (lit ''[ERROR] OpenAIEmbedding initialization failed: '' @ exc_str e)) (\<lambda>_.
            raise e))"

definition vector_store_kwargs :: "client \<Rightarrow> pystr \<Rightarrow> pystr \<Rightarrow> vs_kwargs" where
  "vector_store_kwargs cl dbn colln =
     \<lparr>mongo_client = cl, db_name = dbn, collection_name = colln,
      vector_index_name = lit ''vector_index'', exact = lit ''True''\<rparr>"

definition initialize_vector_store :: "world \<Rightarrow> client \<Rightarrow> pystr \<Rightarrow> pystr \<Rightarrow> vector_store prog" where
  "initialize_vector_store w cl dbn colln =
     try_except
       (bind (extern w (MongoDBAtlasVectorSearch_init (vector_store_kwargs cl dbn colln))
                (MongoDBAtlasVectorSearch (vector_store_kwargs cl dbn colln))) (\<lambda>vs.
        bind (print (lit ''[DEBUG] MongoDBAtlasVectorSearch initialized successfully'')) (\<lambda>_.
        ret vs)))
       (\<lambda>e. bind (print (lit ''[ERROR] Vector store initialization failed: '' @ exc_str e)) (\<lambda>_.
            raise e))"

text \<open>Lines 14 to 79: everything the module does before the page is drawn.\<close>

definition startup :: "world \<Rightarrow> ctx prog" where
  "startup w =
     bind (extern_total Load_dotenv ()) (\<lambda>_.
     bind (initialize_mongodb w) (\<lambda>cl.
     bind (extern w (GridFS_init (Database cl (lit ''Lorenzo''))) (GridFS (Database cl (lit ''Lorenzo'')))) (\<lambda>gfs.
     bind (initialize_embed_model w) (\<lambda>em.
     bind (modify (\<lambda>s. s\<lparr>settings := (settings s)\<lparr>embed_model_setting := Some em\<rparr>\<rparr>)) (\<lambda>_.
     bind (modify (\<lambda>s. s\<lparr>settings := (settings s)\<lparr>chunk_size := 100\<rparr>\<rparr>)) (\<lambda>_.
     bind (modify (\<lambda>s. s\<lparr>settings := (settings s)\<lparr>chunk_overlap := 10\<rparr>\<rparr>)) (\<lambda>_.
     bind (initialize_vector_store w cl (lit ''Lorenzo'') (lit ''RAG'')) (\<lambda>vs.
     bind (extern w (StorageContext_from_defaults vs) (StorageContext vs)) (\<lambda>sc.
     ret \<lparr>client = cl, db = Database cl (lit ''Lorenzo''),
          collection = Collection (Database cl (lit ''Lorenzo'')) (lit ''RAG''),
          fs = gfs, embed_model = em, vector_store = vs, storage_context = sc\<rparr>)))))))))"

text \<open>The body of the \<open>try\<close> of \<open>process_pdf\<close>, and the function with its handler.\<close>

definition process_pdf_body :: "world \<Rightarrow> ctx \<Rightarrow> uploaded_file \<Rightarrow> nat prog" where
  "process_pdf_body w c file =
     bind (bind (NamedTemporaryFile w False (lit ''.pdf'')) (\<lambda>temp_file.
           on_exit (bind (temp_write w temp_file (file_bytes file)) (\<lambda>_. ret temp_file))
                   (temp_close w False temp_file))) (\<lambda>temp_file_path.
     bind (print (lit ''[DEBUG] Temporary file created at '' @ temp_file_path)) (\<lambda>_.
     bind (extern w (Load_data [temp_file_path]) (documents_of w [temp_file_path])) (\<lambda>documents.
     bind (print (lit ''[DEBUG] Documents loaded: '' @ str_nat (length documents))) (\<lambda>_.
     bind (extern w (From_documents documents (storage_context c) True)
             (FromDocuments documents (storage_context c) True)) (\<lambda>vector_store_index.
     bind (extern w (Persist (storage_context c)) ()) (\<lambda>_.
     bind (print (lit ''[DEBUG] VectorStoreIndex created and saved successfully'')) (\<lambda>_.
     bind (os_unlink w temp_file_path) (\<lambda>_.
     bind (print (lit ''[DEBUG] Temporary file deleted'')) (\<lambda>_.
     ret (length documents))))))))))"

definition process_pdf :: "world \<Rightarrow> ctx \<Rightarrow> uploaded_file \<Rightarrow> nat prog" where
  "process_pdf w c file =
     try_except (process_pdf_body w c file)
       (\<lambda>e. bind (print (lit ''[ERROR] PDF processing failed: '' @ exc_str e)) (\<lambda>_.
            raise e))"

definition check_vector_store :: "world \<Rightarrow> ctx \<Rightarrow> unit prog" where
  "check_vector_store w c =
     try_except
       (bind (extern w (Count_documents (collection c)) (document_count w)) (\<lambda>count.
        print (lit ''[DEBUG] Number of documents in vector store: '' @ str_nat count)))
       (\<lambda>e. print (lit ''[ERROR] Document count failed: '' @ exc_str e))"

definition load_index :: "world \<Rightarrow> ctx \<Rightarrow> index option prog" where
  "load_index w c =
     try_except
       (bind (print (lit ''[DEBUG] Loading VectorStoreIndex from vector store'')) (\<lambda>_.
        bind (extern w (From_vector_store (vector_store c) (embed_model c))
                (FromVectorStore (vector_store c) (embed_model c))) (\<lambda>index.
        ret (Some index))))
       (\<lambda>e. bind (print (lit ''[ERROR] Index loading failed: '' @ exc_str e)) (\<lambda>_.
            ret None))"

text \<open>\<open>index.as_query_engine(similarity_top_k=k, verbose=v)\<close>: an attribute access on
  \<open>None\<close> raises \<open>AttributeError\<close> before any library code runs.\<close>

definition as_query_engine :: "world \<Rightarrow> index option \<Rightarrow> nat \<Rightarrow> bool \<Rightarrow> query_engine prog" where
  "as_query_engine w index k v =
     (case index of
        None \<Rightarrow> raise (Exc AttributeError
                  ([39] @ lit ''NoneType'' @ [39] @ lit '' object has no attribute '' @
                   [39] @ lit ''as_query_engine'' @ [39]))
      | Some i \<Rightarrow> extern w (As_query_engine i k v) (QueryEngine i k v))"

text \<open>The \<open>for\<close> loop over \<open>top_nodes[:3]\<close>, appending to \<open>top_blocks\<close>.\<close>

fun collect_blocks :: "world \<Rightarrow> node_with_score list \<Rightarrow> pystr list \<Rightarrow> pystr list prog" where
  "collect_blocks w [] top_blocks = ret top_blocks"
| "collect_blocks w (n # ns) top_blocks =
     bind (extern w (Get_content n) (node_content n)) (\<lambda>content.
     collect_blocks w ns (top_blocks @ [content]))"

definition sentinel :: "pystr \<times> pystr list" where
  "sentinel = (lit ''Error: Unable to process the query'', [])"

definition search_body :: "world \<Rightarrow> pystr \<Rightarrow> index option \<Rightarrow> (pystr \<times> pystr list) prog" where
  "search_body w query index =
     bind (print (lit ''[DEBUG] Received query: '' @ query)) (\<lambda>_.
     bind (as_query_engine w index 3 True) (\<lambda>query_engine.
     bind (extern w (Query query_engine query) (answer_of w query_engine query)) (\<lambda>response.
     bind (print (lit ''[DEBUG] Response received: '' @ response_str response)) (\<lambda>_.
     bind (collect_blocks w (take 3 (source_nodes response)) []) (\<lambda>top_blocks.
     ret (response_str response, top_blocks))))))"

definition search_and_answer_with_top_blocks ::
  "world \<Rightarrow> pystr \<Rightarrow> index option \<Rightarrow> (pystr \<times> pystr list) prog" where
  "search_and_answer_with_top_blocks w query index =
     try_except (search_body w query index)
       (\<lambda>e. bind (print (lit ''[ERROR] Query processing failed: '' @ exc_str e)) (\<lambda>_.
            ret sentinel))"

subsection \<open>The page\<close>

definition block_markdown :: "nat \<Rightarrow> pystr \<Rightarrow> pystr" where
  "block_markdown i shown =
     lit ''**Block '' @ str_nat i @ lit '':**'' @ [10] @ [96, 96, 96] @ [10] @ shown @ [10] @ [96, 96, 96]"

text \<open>\<open>for i, block in enumerate(top_blocks, 1): st.markdown(...)\<close>.\<close>

fun render_blocks :: "nat \<Rightarrow> pystr list \<Rightarrow> unit prog" where
  "render_blocks i [] = ret ()"
| "render_blocks i (block # rest) =
     bind (ui (St_markdown (block_markdown i (strip block)))) (\<lambda>_.
     render_blocks (Suc i) rest)"

text \<open>Lines 170 to 181: what the page shows for a pair returned by the retrieval.\<close>

definition render_result :: "pystr \<Rightarrow> pystr list \<Rightarrow> unit prog" where
  "render_result answer top_blocks =
     (if py_in (lit ''Error'') answer then ui (St_error answer)
      else
        bind (ui (St_write [lit ''**Answer:**'', answer])) (\<lambda>_.
        if top_blocks \<noteq> [] then
          bind (ui (St_write [lit ''**Top 3 Blocks Used (Sources):**''])) (\<lambda>_.
          render_blocks 1 top_blocks)
        else ui (St_write [lit ''No sources found.''])))"

definition query_branch :: "world \<Rightarrow> pystr \<Rightarrow> index option \<Rightarrow> unit prog" where
  "query_branch w query index =
     bind (ui (St_spinner (lit ''Searching...''))) (\<lambda>_.
     bind (search_and_answer_with_top_blocks w query index) (\<lambda>r.
     render_result (fst r) (snd r)))"

definition upload_branch :: "world \<Rightarrow> ctx \<Rightarrow> uploaded_file \<Rightarrow> unit prog" where
  "upload_branch w c file =
     bind (ui (St_spinner (lit ''Processing PDF...''))) (\<lambda>_.
     try_except
       (bind (process_pdf w c file) (\<lambda>num_documents.
        bind (ui (St_success
                (lit ''PDF processed and saved successfully. Documents processed: '' @
                 str_nat num_documents))) (\<lambda>_.
        check_vector_store w c)))
       (\<lambda>e. ui (St_error (lit ''Error processing the PDF: '' @ exc_str e))))"

text \<open>Lines 154 to 164: the uploader and the branch taken when a file was given.\<close>

definition upload_section :: "world \<Rightarrow> ctx \<Rightarrow> unit prog" where
  "upload_section w c =
     bind (ui (St_file_uploader (lit ''Upload a PDF file'') (lit ''pdf''))) (\<lambda>_.
     case uploaded w of
       None \<Rightarrow> ret ()
     | Some file \<Rightarrow> upload_branch w c file)"

text \<open>Lines 166 to 181: the index is loaded on every run; the query is processed only
  under the guard \<open>if query and index\<close>.\<close>

definition query_section :: "world \<Rightarrow> ctx \<Rightarrow> unit prog" where
  "query_section w c =
     bind (load_index w c) (\<lambda>index.
     bind (ui (St_text_input (lit ''Ask a question about the uploaded documents:''))) (\<lambda>_.
     if typed_query w \<noteq> [] \<and> index \<noteq> None then query_branch w (typed_query w) index
     else ret ()))"

definition app_body :: "world \<Rightarrow> ctx \<Rightarrow> unit prog" where
  "app_body w c =
     bind (ui (St_title (lit ''RAG Application with Streamlit, MongoDB, and LlamaIndex''))) (\<lambda>_.
     bind (upload_section w c) (\<lambda>_.
     query_section w c))"

definition main :: "world \<Rightarrow> unit prog" where
  "main w = bind (startup w) (app_body w)"

text \<open>The state in which the script starts: nothing traced, the given files, the
  library's own \<open>Settings\<close>.\<close>

definition initial_state :: "(pystr \<rightharpoonup> nat list) \<Rightarrow> settings \<Rightarrow> state" where
  "initial_state fls st = \<lparr>trace = [], files = fls, settings = st\<rparr>"

section \<open>Notions used to state the properties\<close>

text \<open>
  A step of the retrieval raises: the index is \<open>None\<close>, or building the query engine,
  the query itself (query embedding, top-K search and answer generation all happen inside
  \<open>query_engine.query\<close>), or reading the content of one of the first three source nodes
  raises.
\<close>

definition retrieval_step_fails :: "world \<Rightarrow> pystr \<Rightarrow> index option \<Rightarrow> bool" where
  "retrieval_step_fails w query index \<longleftrightarrow>
     (case index of
        None \<Rightarrow> True
      | Some i \<Rightarrow>
          fails w (As_query_engine i 3 True) \<noteq> None \<or>
          fails w (Query (QueryEngine i 3 True) query) \<noteq> None \<or>
          (\<exists>n \<in> set (take 3 (source_nodes (answer_of w (QueryEngine i 3 True) query))).
             fails w (Get_content n) \<noteq> None))"

text \<open>What a retrieval in which no step raises adds to the trace.\<close>

definition retrieval_trace :: "world \<Rightarrow> pystr \<Rightarrow> index \<Rightarrow> event list" where
  "retrieval_trace w query i =
     [Print (lit ''[DEBUG] Received query: '' @ query),
      Call (As_query_engine i 3 True),
      Call (Query (QueryEngine i 3 True) query),
      Print (lit ''[DEBUG] Response received: '' @
             response_str (answer_of w (QueryEngine i 3 True) query))] @
     map (\<lambda>n. Call (Get_content n))
       (take 3 (source_nodes (answer_of w (QueryEngine i 3 True) query)))"

text \<open>What the loop over the blocks adds to the trace, the first block numbered \<open>k\<close>.\<close>

definition blocks_trace :: "nat \<Rightarrow> pystr list \<Rightarrow> event list" where
  "blocks_trace k blocks =
     map (\<lambda>(j, b). UI (St_markdown (block_markdown j (strip b))))
       (zip [k..<k + length blocks] blocks)"

text \<open>What the page shows for an answer and its blocks.\<close>

definition result_trace :: "pystr \<Rightarrow> pystr list \<Rightarrow> event list" where
  "result_trace answer blocks =
     (if py_in (lit ''Error'') answer then [UI (St_error answer)]
      else UI (St_write [lit ''**Answer:**'', answer]) #
           (if blocks = [] then [UI (St_write [lit ''No sources found.''])]
            else UI (St_write [lit ''**Top 3 Blocks Used (Sources):**'']) # blocks_trace 1 blocks))"

text \<open>A computation that returns a value from every state: no exception leaves it.\<close>

definition returns :: "'a prog \<Rightarrow> bool" where
  "returns m \<longleftrightarrow> (\<forall>s. \<exists>v s'. m s = (Inr v, s'))"

text \<open>A computation that only appends to the trace.\<close>

definition grows :: "'a prog \<Rightarrow> bool" where
  "grows m \<longleftrightarrow> (\<forall>s. \<exists>evs. trace (snd (m s)) = trace s @ evs)"

text \<open>The calls of a trace that render into the page, in order.\<close>

fun ui_calls :: "event list \<Rightarrow> ui_call list" where
  "ui_calls [] = []"
| "ui_calls (UI c # evs) = c # ui_calls evs"
| "ui_calls (ev # evs) = ui_calls evs"


text \<open>
  Exact search along a trace: every construction of the vector store passes
  \<open>exact="True"\<close>, and every query goes to an engine over an index that was loaded from
  a store constructed that way.
\<close>

fun exact_call :: "ext_call \<Rightarrow> bool" where
  "exact_call (MongoDBAtlasVectorSearch_init kw) = (exact kw = lit ''True'')"
| "exact_call (Query (QueryEngine (FromVectorStore (MongoDBAtlasVectorSearch kw) em) k v) q) =
     (exact kw = lit ''True'')"
| "exact_call (Query qe q) = False"
| "exact_call c = True"

fun exact_event :: "event \<Rightarrow> bool" where
  "exact_event (Call c) = exact_call c"
| "exact_event ev = True"

definition exact_trace :: "state \<Rightarrow> bool" where
  "exact_trace s \<longleftrightarrow> list_all exact_event (trace s)"

text \<open>An index argument that is \<open>None\<close> or was loaded from such a store.\<close>

fun exact_index :: "index option \<Rightarrow> bool" where
  "exact_index None = True"
| "exact_index (Some (FromVectorStore (MongoDBAtlasVectorSearch kw) em)) = (exact kw = lit ''True'')"
| "exact_index (Some i) = False"

text \<open>\<open>keeps m Q\<close>: run from a state whose trace is exact, \<open>m\<close> leaves an exact trace,
  and a value it returns satisfies \<open>Q\<close>.\<close>

definition keeps :: "'a prog \<Rightarrow> ('a \<Rightarrow> bool) \<Rightarrow> bool" where
  "keeps m Q \<longleftrightarrow>
     (\<forall>s. exact_trace s \<longrightarrow>
        (case m s of (Inl e, s') \<Rightarrow> exact_trace s' | (Inr v, s') \<Rightarrow> exact_trace s' \<and> Q v))"

subsection \<open>Example runs\<close>

definition example_settings :: settings where
  "example_settings = \<lparr>embed_model_setting = None, chunk_size = 1024, chunk_overlap = 200\<rparr>"

definition example_state :: state where
  "example_state = initial_state Map.empty example_settings"

definition example_file :: uploaded_file where
  "example_file = \<lparr>file_name = lit ''notes.pdf'', file_bytes = [37, 80, 68, 70]\<rparr>"

definition example_error :: exc where
  "example_error = Exc (OtherException (lit ''OperationFailure'')) (lit ''backend unavailable'')"

definition example_response :: response where
  "example_response =
     \<lparr>response_str = lit ''A greeting.'',
      source_nodes =
        [\<lparr>node_content = lit '' Hello world.  '', node_metadata = [], node_score = 1\<rparr>]\<rparr>"

text \<open>A world in which every external call returns.\<close>

definition example_world :: world where
  "example_world =
     \<lparr>fails = (\<lambda>c. None),
      environ = (\<lambda>k. if k = lit ''MONGODB_URI'' then Some (lit ''mongodb://localhost:27017'')
                     else None),
      temp_name = lit ''/tmp/tmpk3v9.pdf'',
      documents_of = (\<lambda>paths. [Document (lit ''Hello world.'')]),
      document_count = 1,
      answer_of = (\<lambda>qe q. example_response),
      uploaded = Some example_file,
      typed_query = lit ''What is it?''\<rparr>"

definition example_vector_store :: vector_store where
  "example_vector_store =
     MongoDBAtlasVectorSearch
       (vector_store_kwargs (MongoClient (lit ''mongodb://localhost:27017''))
          (lit ''Lorenzo'') (lit ''RAG''))"

definition example_ctx :: ctx where
  "example_ctx =
     \<lparr>client = MongoClient (lit ''mongodb://localhost:27017''),
      db = Database (MongoClient (lit ''mongodb://localhost:27017'')) (lit ''Lorenzo''),
      collection =
        Collection (Database (MongoClient (lit ''mongodb://localhost:27017'')) (lit ''Lorenzo''))
          (lit ''RAG''),
      fs = GridFS (Database (MongoClient (lit ''mongodb://localhost:27017'')) (lit ''Lorenzo'')),
      embed_model = OpenAIEmbedding (lit ''text-embedding-3-small'') 100,
      vector_store = example_vector_store,
      storage_context = StorageContext example_vector_store\<rparr>"

definition example_index :: index where
  "example_index = FromVectorStore (vector_store example_ctx) (embed_model example_ctx)"

text \<open>The same world with the connection string missing from the environment.\<close>

definition no_uri_world :: world where
  "no_uri_world = example_world\<lparr>environ := (\<lambda>k. None)\<rparr>"

text \<open>The same world with the query call raising.\<close>

definition query_fails_world :: world where
  "query_fails_world =
     example_world\<lparr>fails := (\<lambda>c. case c of Query qe q \<Rightarrow> Some example_error | _ \<Rightarrow> None)\<rparr>"

text \<open>The same world with a generated answer that contains the word "Error".\<close>

definition error_answer_world :: world where
  "error_answer_world =
     example_world\<lparr>answer_of :=
       (\<lambda>qe q. example_response\<lparr>response_str := lit ''Error codes are listed in section 2.''\<rparr>)\<rparr>"

text \<open>The same world with the reader raising on the staged file.\<close>

definition load_data_fails_world :: world where
  "load_data_fails_world =
     example_world\<lparr>fails :=
       (\<lambda>c. case c of Load_data paths \<Rightarrow> Some example_error | _ \<Rightarrow> None)\<rparr>"

text \<open>The same world with no upload and with the index unreachable.\<close>

definition index_unreachable_world :: world where
  "index_unreachable_world =
     example_world\<lparr>fails :=
       (\<lambda>c. case c of From_vector_store vs em \<Rightarrow> Some example_error | _ \<Rightarrow> None),
       uploaded := None\<rparr>"


text \<open>The same world with both the reader and the query raising.\<close>

definition requests_fail_world :: world where
  "requests_fail_world =
     example_world\<lparr>fails :=
       (\<lambda>c. case c of Load_data paths \<Rightarrow> Some example_error
             | Query qe q \<Rightarrow> Some example_error | _ \<Rightarrow> None)\<rparr>"



text \<open>The same world with both \<open>count_documents\<close> and the loading of the index raising.\<close>

definition silent_errors_world :: world where
  "silent_errors_world =
     example_world\<lparr>fails :=
       (\<lambda>c. case c of Count_documents coll \<Rightarrow> Some example_error
             | From_vector_store vs em \<Rightarrow> Some example_error | _ \<Rightarrow> None)\<rparr>"

section \<open>Basic facts\<close>

lemmas prog_defs = ret_def raise_def bind_def try_except_def on_exit_def print_def ui_def
  modify_def extern_def extern_total_def log_def

lemma lit_eq_Nil [simp]: "(lit s = []) = (s = [])"
  by (simp add: lit_def)

subsection \<open>The loop over the source nodes\<close>

lemma collect_blocks_ok:
  "\<forall>n \<in> set ns. fails w (Get_content n) = None \<Longrightarrow>
   collect_blocks w ns acc s =
     (Inr (acc @ map node_content ns),
      s\<lparr>trace := trace s @ map (\<lambda>n. Call (Get_content n)) ns\<rparr>)"
proof (induction ns arbitrary: acc s)
  case Nil
  then show ?case by (simp add: ret_def)
next
  case (Cons n ns)
  then show ?case by (simp add: prog_defs)
qed

lemma collect_blocks_fail:
  "\<exists>n \<in> set ns. fails w (Get_content n) \<noteq> None \<Longrightarrow>
   \<exists>e s'. collect_blocks w ns acc s = (Inl e, s')"
proof (induction ns arbitrary: acc s)
  case Nil
  then show ?case by simp
next
  case (Cons n ns)
  show ?case
  proof (cases "fails w (Get_content n)")
    case None
    with Cons.prems have "\<exists>n \<in> set ns. fails w (Get_content n) \<noteq> None" by auto
    from Cons.IH [OF this] None show ?thesis by (simp add: prog_defs)
  next
    case (Some e)
    then show ?thesis by (simp add: prog_defs)
  qed
qed

subsection \<open>The body of the retrieval\<close>

lemma search_body_ok:
  assumes "\<not> retrieval_step_fails w query (Some i)"
  shows "search_body w query (Some i) s =
           (Inr (response_str (answer_of w (QueryEngine i 3 True) query),
                 map node_content
                   (take 3 (source_nodes (answer_of w (QueryEngine i 3 True) query)))),
            s\<lparr>trace := trace s @ retrieval_trace w query i\<rparr>)"
proof -
  from assms have a: "fails w (As_query_engine i 3 True) = None"
    and q: "fails w (Query (QueryEngine i 3 True) query) = None"
    and n: "\<forall>n \<in> set (take 3 (source_nodes (answer_of w (QueryEngine i 3 True) query))).
              fails w (Get_content n) = None"
    by (auto simp: retrieval_step_fails_def)
  show ?thesis
    by (simp add: search_body_def as_query_engine_def prog_defs a q collect_blocks_ok [OF n]
        retrieval_trace_def)
qed

lemma search_body_fail:
  assumes "retrieval_step_fails w query index"
  shows "\<exists>e s'. search_body w query index s = (Inl e, s')"
proof (cases index)
  case None
  then show ?thesis by (simp add: search_body_def as_query_engine_def prog_defs)
next
  case (Some i)
  show ?thesis
  proof (cases "fails w (As_query_engine i 3 True)")
    case a: None
    show ?thesis
    proof (cases "fails w (Query (QueryEngine i 3 True) query)")
      case q: None
      from assms Some a q
      have "\<exists>n \<in> set (take 3 (source_nodes (answer_of w (QueryEngine i 3 True) query))).
              fails w (Get_content n) \<noteq> None"
        by (simp add: retrieval_step_fails_def)
      from collect_blocks_fail [OF this] obtain e s' where
        "collect_blocks w (take 3 (source_nodes (answer_of w (QueryEngine i 3 True) query))) []
           (s\<lparr>trace := trace s @ [Print (lit ''[DEBUG] Received query: '' @ query),
               Call (As_query_engine i 3 True), Call (Query (QueryEngine i 3 True) query),
               Print (lit ''[DEBUG] Response received: '' @
                 response_str (answer_of w (QueryEngine i 3 True) query))]\<rparr>) = (Inl e, s')"
        by blast
      with Some a q show ?thesis
        by (simp add: search_body_def as_query_engine_def prog_defs)
    next
      case (Some e)
      with \<open>index = Some i\<close> a show ?thesis
        by (simp add: search_body_def as_query_engine_def prog_defs)
    qed
  next
    case (Some e)
    with \<open>index = Some i\<close> show ?thesis
      by (simp add: search_body_def as_query_engine_def prog_defs)
  qed
qed

subsection \<open>Strings and rendering\<close>

lemma render_blocks_trace:
  "render_blocks k blocks s = (Inr (), s\<lparr>trace := trace s @ blocks_trace k blocks\<rparr>)"
proof (induction blocks arbitrary: k s)
  case Nil
  then show ?case by (simp add: ret_def blocks_trace_def)
next
  case (Cons b blocks)
  have "[k..<Suc (k + length blocks)] = k # [Suc k..<Suc (k + length blocks)]"
    by (rule upt_conv_Cons) simp
  then show ?case
    by (simp add: prog_defs blocks_trace_def Cons.IH)
qed

lemma strip_decomp:
  "\<exists>pre post. b = pre @ strip b @ post \<and> list_all isspace pre \<and> list_all isspace post"
proof -
  let ?d = "dropWhile isspace b"
  have "rev (takeWhile isspace (rev ?d) @ dropWhile isspace (rev ?d)) = rev (rev ?d)"
    by (simp only: takeWhile_dropWhile_id)
  then have "rev (dropWhile isspace (rev ?d)) @ rev (takeWhile isspace (rev ?d)) = ?d"
    by (simp only: rev_append rev_rev_ident)
  then have d: "?d = strip b @ rev (takeWhile isspace (rev ?d))"
    by (simp only: strip_def)
  have "b = takeWhile isspace b @ ?d" by simp
  with d have "b = takeWhile isspace b @ strip b @ rev (takeWhile isspace (rev ?d))" by simp
  moreover have "list_all isspace (takeWhile isspace b)"
    by (simp add: list_all_iff) (meson set_takeWhileD)
  moreover have "list_all isspace (rev (takeWhile isspace (rev ?d)))"
    by (simp add: list_all_iff) (meson set_takeWhileD)
  ultimately show ?thesis by blast
qed

lemma startswith_iff: "startswith s sub \<longleftrightarrow> (\<exists>post. s = sub @ post)"
proof
  assume "startswith s sub"
  then have "s = sub @ drop (length sub) s"
    by (metis append_take_drop_id startswith_def)
  then show "\<exists>post. s = sub @ post" ..
next
  assume "\<exists>post. s = sub @ post"
  then show "startswith s sub" by (auto simp: startswith_def)
qed

lemma py_in_iff: "py_in sub s \<longleftrightarrow> (\<exists>pre post. s = pre @ sub @ post)"
proof (induction s)
  case Nil
  then show ?case by auto
next
  case (Cons c cs)
  show ?case
  proof
    assume "py_in sub (c # cs)"
    then consider "startswith (c # cs) sub" | "py_in sub cs" by auto
    then show "\<exists>pre post. c # cs = pre @ sub @ post"
    proof cases
      case 1
      then obtain post where "c # cs = sub @ post" by (auto simp: startswith_iff)
      then have "c # cs = [] @ sub @ post" by simp
      then show ?thesis by blast
    next
      case 2
      with Cons.IH obtain pre post where "cs = pre @ sub @ post" by auto
      then have "c # cs = (c # pre) @ sub @ post" by simp
      then show ?thesis by blast
    qed
  next
    assume "\<exists>pre post. c # cs = pre @ sub @ post"
    then obtain pre post where p: "c # cs = pre @ sub @ post" by blast
    show "py_in sub (c # cs)"
    proof (cases pre)
      case Nil
      with p have "startswith (c # cs) sub" by (auto simp: startswith_iff)
      then show ?thesis by simp
    next
      case (Cons a pre')
      with p have "cs = pre' @ sub @ post" by simp
      with Cons.IH have "py_in sub cs" by blast
      then show ?thesis by simp
    qed
  qed
qed

lemma render_result_trace:
  "render_result answer blocks s = (Inr (), s\<lparr>trace := trace s @ result_trace answer blocks\<rparr>)"
  by (simp add: render_result_def result_trace_def prog_defs render_blocks_trace)

lemma sentinel_has_Error: "py_in (lit ''Error'') (lit ''Error: Unable to process the query'')"
  by (simp add: lit_def startswith_def)

lemma search_and_answer_ok:
  assumes "\<not> retrieval_step_fails w query (Some i)"
  shows "search_and_answer_with_top_blocks w query (Some i) s =
           (Inr (response_str (answer_of w (QueryEngine i 3 True) query),
                 map node_content
                   (take 3 (source_nodes (answer_of w (QueryEngine i 3 True) query)))),
            s\<lparr>trace := trace s @ retrieval_trace w query i\<rparr>)"
  by (simp add: search_and_answer_with_top_blocks_def try_except_def search_body_ok [OF assms])

lemma search_and_answer_fail:
  assumes "retrieval_step_fails w query index"
  shows "\<exists>s'. search_and_answer_with_top_blocks w query index s = (Inr sentinel, s')"
proof -
  from search_body_fail [OF assms] obtain e s' where "search_body w query index s = (Inl e, s')"
    by blast
  then show ?thesis
    by (simp add: search_and_answer_with_top_blocks_def try_except_def bind_def print_def ret_def)
qed

lemma query_branch_error_answer:
  assumes "\<not> retrieval_step_fails w query (Some i)"
    and "py_in (lit ''Error'') (response_str (answer_of w (QueryEngine i 3 True) query))"
  shows "query_branch w query (Some i) s =
           (Inr (), s\<lparr>trace := trace s @ UI (St_spinner (lit ''Searching...'')) #
              retrieval_trace w query i @
              [UI (St_error (response_str (answer_of w (QueryEngine i 3 True) query)))]\<rparr>)"
  using assms(2)
  by (simp add: query_branch_def bind_def ui_def log_def search_and_answer_ok [OF assms(1)]
      render_result_trace result_trace_def)

lemma error_answer_has_Error: "py_in (lit ''Error'') (lit ''Error codes are listed in section 2.'')"
  by (simp add: lit_def startswith_def)

subsection \<open>Computations that cannot raise\<close>

lemma returnsI: "(\<And>s. \<exists>v s'. m s = (Inr v, s')) \<Longrightarrow> returns m"
  by (simp add: returns_def)

lemma returnsD: "returns m \<Longrightarrow> \<exists>v s'. m s = (Inr v, s')"
  by (simp add: returns_def)

lemma returns_ret: "returns (ret v)"
  by (simp add: returns_def ret_def)

lemma returns_print: "returns (print l)"
  by (simp add: returns_def print_def)

lemma returns_ui: "returns (ui c)"
  by (simp add: returns_def ui_def)

lemma returns_bind:
  assumes "returns m" and "\<And>v. returns (f v)"
  shows "returns (bind m f)"
proof (rule returnsI)
  fix s
  from returnsD [OF assms(1), of s] obtain v s' where "m s = (Inr v, s')" by blast
  with returnsD [OF assms(2), of v s'] show "\<exists>v s'. bind m f s = (Inr v, s')"
    by (simp add: bind_def)
qed

lemma returns_try_except:
  assumes "\<And>e. returns (h e)"
  shows "returns (try_except m h)"
proof (rule returnsI)
  fix s
  show "\<exists>v s'. try_except m h s = (Inr v, s')"
  proof (cases "m s")
    case (Pair r s')
    then show ?thesis
      using returnsD [OF assms, of _ s']
      by (cases r) (simp_all add: try_except_def)
  qed
qed

lemma returns_render_result: "returns (render_result answer blocks)"
  by (simp add: returns_def render_result_trace)

lemma returns_check_vector_store: "returns (check_vector_store w c)"
  unfolding check_vector_store_def by (rule returns_try_except) (rule returns_print)

lemma returns_load_index: "returns (load_index w c)"
  unfolding load_index_def
  by (rule returns_try_except) (intro returns_bind returns_print returns_ret)

lemma returns_search_and_answer: "returns (search_and_answer_with_top_blocks w query index)"
  unfolding search_and_answer_with_top_blocks_def
  by (rule returns_try_except) (intro returns_bind returns_print returns_ret)

lemma returns_query_branch: "returns (query_branch w query index)"
  unfolding query_branch_def
  by (intro returns_bind returns_ui returns_search_and_answer returns_render_result)

lemma returns_upload_branch: "returns (upload_branch w c file)"
  unfolding upload_branch_def
  by (intro returns_bind returns_ui returns_try_except)

lemma returns_upload_section: "returns (upload_section w c)"
  unfolding upload_section_def
  by (cases "uploaded w") (auto intro!: returns_bind returns_ui returns_ret returns_upload_branch)

lemma returns_query_section: "returns (query_section w c)"
  unfolding query_section_def
  by (auto intro!: returns_bind returns_ui returns_ret returns_load_index returns_query_branch)

lemma returns_app_body: "returns (app_body w c)"
  unfolding app_body_def
  by (intro returns_bind returns_ui returns_upload_section returns_query_section)

lemma upload_branch_failure:
  assumes "process_pdf w c file (log (UI (St_spinner (lit ''Processing PDF...''))) s) = (Inl e, s1)"
  shows "upload_branch w c file s =
           (Inr (), log (UI (St_error (lit ''Error processing the PDF: '' @ exc_str e))) s1)"
  using assms by (simp add: upload_branch_def bind_def try_except_def ui_def)

lemma query_branch_failure:
  assumes "retrieval_step_fails w query index"
  shows "\<exists>s1. query_branch w query index s =
           (Inr (), log (UI (St_error (lit ''Error: Unable to process the query''))) s1)"
proof -
  from search_and_answer_fail [OF assms, of "log (UI (St_spinner (lit ''Searching...''))) s"]
  obtain s' where
    "search_and_answer_with_top_blocks w query index (log (UI (St_spinner (lit ''Searching...''))) s)
       = (Inr sentinel, s')"
    by blast
  then show ?thesis
    using sentinel_has_Error
    by (auto simp: query_branch_def bind_def ui_def sentinel_def render_result_def)
qed

subsection \<open>Ingestion and the vector store\<close>

lemmas pdf_defs = process_pdf_def process_pdf_body_def NamedTemporaryFile_def temp_write_def
  temp_close_def os_unlink_def

lemma process_pdf_success_removes_temp:
  "process_pdf w c upl s = (Inr n, s') \<Longrightarrow> files s' (temp_name w) = None"
  by (auto simp: pdf_defs prog_defs split: option.splits)

lemma process_pdf_failure_keeps_temp:
  "fails w (NamedTemporaryFile_init False (lit ''.pdf'')) = None \<Longrightarrow>
   process_pdf w c upl s = (Inl e, s') \<Longrightarrow> files s' (temp_name w) \<noteq> None"
  by (auto simp: pdf_defs prog_defs split: option.splits)

lemma load_index_failure:
  assumes "fails w (From_vector_store (vector_store c) (embed_model c)) = Some e"
  shows "load_index w c s =
           (Inr None, s\<lparr>trace := trace s @
              [Print (lit ''[DEBUG] Loading VectorStoreIndex from vector store''),
               Call (From_vector_store (vector_store c) (embed_model c)),
               Print (lit ''[ERROR] Index loading failed: '' @ exc_str e)]\<rparr>)"
  using assms by (simp add: load_index_def prog_defs)

lemma check_vector_store_failure:
  assumes "fails w (Count_documents (collection c)) = Some e"
  shows "check_vector_store w c s =
           (Inr (), s\<lparr>trace := trace s @
              [Call (Count_documents (collection c)),
               Print (lit ''[ERROR] Document count failed: '' @ exc_str e)]\<rparr>)"
  using assms by (simp add: check_vector_store_def prog_defs)




subsection \<open>Exact search is kept along a run\<close>

lemma keepsI:
  assumes "\<And>s e s'. exact_trace s \<Longrightarrow> m s = (Inl e, s') \<Longrightarrow> exact_trace s'"
    and "\<And>s v s'. exact_trace s \<Longrightarrow> m s = (Inr v, s') \<Longrightarrow> exact_trace s' \<and> Q v"
  shows "keeps m Q"
  unfolding keeps_def
proof (intro allI impI)
  fix s assume s: "exact_trace s"
  show "case m s of (Inl e, s') \<Rightarrow> exact_trace s' | (Inr v, s') \<Rightarrow> exact_trace s' \<and> Q v"
  proof (cases "m s")
    case (Pair r s')
    then show ?thesis using assms(1) [OF s] assms(2) [OF s] by (cases r) auto
  qed
qed

lemma keeps_raisesD: "keeps m Q \<Longrightarrow> exact_trace s \<Longrightarrow> m s = (Inl e, s') \<Longrightarrow> exact_trace s'"
  by (auto simp: keeps_def)

lemma keeps_returnsD:
  "keeps m Q \<Longrightarrow> exact_trace s \<Longrightarrow> m s = (Inr v, s') \<Longrightarrow> exact_trace s' \<and> Q v"
  by (auto simp: keeps_def)

lemma keeps_bind:
  assumes "keeps m P" and "\<And>v. P v \<Longrightarrow> keeps (f v) Q"
  shows "keeps (bind m f) Q"
proof (rule keepsI)
  fix s e s' assume s: "exact_trace s" and b: "bind m f s = (Inl e, s')"
  show "exact_trace s'"
  proof (cases "m s")
    case (Pair r s1)
    show ?thesis
    proof (cases r)
      case (Inl e1)
      with Pair b keeps_raisesD [OF assms(1) s] show ?thesis by (simp add: bind_def)
    next
      case (Inr v)
      with Pair keeps_returnsD [OF assms(1) s] have "exact_trace s1" and "P v" by auto
      with Pair Inr b keeps_raisesD [OF assms(2)] show ?thesis by (simp add: bind_def)
    qed
  qed
next
  fix s v s' assume s: "exact_trace s" and b: "bind m f s = (Inr v, s')"
  show "exact_trace s' \<and> Q v"
  proof (cases "m s")
    case (Pair r s1)
    show ?thesis
    proof (cases r)
      case (Inl e1)
      with Pair b show ?thesis by (simp add: bind_def)
    next
      case (Inr v1)
      with Pair keeps_returnsD [OF assms(1) s] have "exact_trace s1" and "P v1" by auto
      with Pair Inr b keeps_returnsD [OF assms(2)] show ?thesis by (simp add: bind_def)
    qed
  qed
qed

lemma keeps_process_pdf: "keeps (process_pdf w c upl) (\<lambda>n. True)"
  by (auto simp: keeps_def exact_trace_def pdf_defs prog_defs split: option.splits)

lemma keeps_check_vector_store: "keeps (check_vector_store w c) (\<lambda>u. True)"
  by (auto simp: keeps_def exact_trace_def check_vector_store_def prog_defs split: option.splits)

lemma keeps_upload_branch: "keeps (upload_branch w c upl) (\<lambda>u. True)"
  by (auto simp: keeps_def exact_trace_def upload_branch_def check_vector_store_def pdf_defs
      prog_defs split: option.splits)

lemma keeps_upload_section: "keeps (upload_section w c) (\<lambda>u. True)"
proof (cases "uploaded w")
  case None
  then show ?thesis by (simp add: keeps_def exact_trace_def upload_section_def prog_defs)
next
  case (Some upl)
  have "keeps (ui (St_file_uploader (lit ''Upload a PDF file'') (lit ''pdf''))) (\<lambda>u. True)"
    by (simp add: keeps_def exact_trace_def prog_defs)
  then show ?thesis
    unfolding upload_section_def Some option.case
    by (rule keeps_bind) (rule keeps_upload_branch)
qed

lemma keeps_startup:
  "keeps (startup w) (\<lambda>c. exact_index (Some (FromVectorStore (vector_store c) (embed_model c))))"
  by (auto simp: keeps_def exact_trace_def startup_def initialize_mongodb_def
      initialize_embed_model_def initialize_vector_store_def vector_store_kwargs_def prog_defs
      split: option.splits)

lemma keeps_load_index:
  assumes "exact_index (Some (FromVectorStore (vector_store c) (embed_model c)))"
  shows "keeps (load_index w c) exact_index"
  using assms
  by (auto simp: keeps_def exact_trace_def load_index_def prog_defs split: option.splits)

lemma collect_blocks_exact:
  "collect_blocks w ns acc s = (r, s') \<Longrightarrow> list_all exact_event (trace s) \<Longrightarrow>
   list_all exact_event (trace s')"
proof (induction ns arbitrary: acc s)
  case Nil
  then show ?case by (auto simp: ret_def)
next
  case (Cons n ns)
  show ?case
  proof (cases "fails w (Get_content n)")
    case None
    with Cons.prems(1)
    have "collect_blocks w ns (acc @ [node_content n]) (log (Call (Get_content n)) s) = (r, s')"
      by (simp add: bind_def extern_def)
    moreover from Cons.prems(2) have "list_all exact_event (trace (log (Call (Get_content n)) s))"
      by (simp add: log_def)
    ultimately show ?thesis by (rule Cons.IH)
  next
    case (Some e)
    with Cons.prems show ?thesis by (auto simp: bind_def extern_def log_def)
  qed
qed

lemma keeps_search_and_answer:
  assumes "exact_index index"
  shows "keeps (search_and_answer_with_top_blocks w query index) (\<lambda>r. True)"
proof (cases index)
  case None
  then show ?thesis
    by (simp add: keeps_def exact_trace_def search_and_answer_with_top_blocks_def
        search_body_def as_query_engine_def prog_defs)
next
  case (Some i)
  with assms have "exact_index (Some i)" by simp
  then obtain kw em where i: "i = FromVectorStore (MongoDBAtlasVectorSearch kw) em"
    and kw: "exact kw = lit ''True''"
    by (cases "Some i" rule: exact_index.cases) auto
  show ?thesis
    unfolding keeps_def exact_trace_def
    using Some i kw
    by (auto simp: search_and_answer_with_top_blocks_def search_body_def as_query_engine_def
        prog_defs split: option.splits prod.splits sum.splits dest!: collect_blocks_exact)
qed

lemma keeps_render_result: "keeps (render_result answer blocks) (\<lambda>u. True)"
  by (simp add: keeps_def exact_trace_def render_result_trace result_trace_def blocks_trace_def
      list_all_iff) auto

lemma keeps_query_branch:
  assumes "exact_index index"
  shows "keeps (query_branch w query index) (\<lambda>u. True)"
  unfolding query_branch_def
proof (rule keeps_bind)
  show "keeps (ui (St_spinner (lit ''Searching...''))) (\<lambda>u. True)"
    by (simp add: keeps_def exact_trace_def prog_defs)
next
  fix u :: unit
  show "keeps (bind (search_and_answer_with_top_blocks w query index)
                 (\<lambda>r. render_result (fst r) (snd r))) (\<lambda>u. True)"
    by (rule keeps_bind [OF keeps_search_and_answer [OF assms]]) (rule keeps_render_result)
qed

lemma keeps_query_section:
  assumes "exact_index (Some (FromVectorStore (vector_store c) (embed_model c)))"
  shows "keeps (query_section w c) (\<lambda>u. True)"
  unfolding query_section_def
proof (rule keeps_bind [OF keeps_load_index [OF assms]])
  fix index assume i: "exact_index index"
  have t: "keeps (ui (St_text_input (lit ''Ask a question about the uploaded documents:'')))
             (\<lambda>u. True)"
    by (simp add: keeps_def exact_trace_def prog_defs)
  have r: "keeps (ret ()) (\<lambda>u. True)"
    by (simp add: keeps_def ret_def)
  show "keeps (bind (ui (St_text_input (lit ''Ask a question about the uploaded documents:'')))
          (\<lambda>_. if typed_query w \<noteq> [] \<and> index \<noteq> None then query_branch w (typed_query w) index
               else ret ())) (\<lambda>u. True)"
    by (rule keeps_bind [OF t]) (simp add: keeps_query_branch [OF i] r)
qed

lemma keeps_app_body:
  assumes "exact_index (Some (FromVectorStore (vector_store c) (embed_model c)))"
  shows "keeps (app_body w c) (\<lambda>u. True)"
  unfolding app_body_def
proof (rule keeps_bind)
  show "keeps (ui (St_title (lit ''RAG Application with Streamlit, MongoDB, and LlamaIndex'')))
          (\<lambda>u. True)"
    by (simp add: keeps_def exact_trace_def prog_defs)
next
  fix u :: unit
  show "keeps (bind (upload_section w c) (\<lambda>_. query_section w c)) (\<lambda>u. True)"
    by (rule keeps_bind [OF keeps_upload_section]) (rule keeps_query_section [OF assms])
qed

lemma keeps_main: "keeps (main w) (\<lambda>u. True)"
  unfolding main_def
  by (rule keeps_bind [OF keeps_startup]) (rule keeps_app_body)

lemma exact_trace_main:
  assumes "main w (initial_state fls st) = (r, s')"
  shows "list_all exact_event (trace s')"
proof -
  have "exact_trace (initial_state fls st)"
    by (simp add: exact_trace_def initial_state_def)
  with keeps_main [of w] assms show ?thesis
    by (cases r) (auto simp: keeps_def exact_trace_def)
qed

subsection \<open>The settings of the indexing library\<close>

lemma startup_settings:
  "startup w s = (Inr c, s') \<Longrightarrow>
   chunk_size (settings s') = 100 \<and> chunk_overlap (settings s') = 10 \<and>
   embed_model_setting (settings s') = Some (embed_model c)"
  by (auto simp: startup_def initialize_mongodb_def initialize_embed_model_def
      initialize_vector_store_def prog_defs split: option.splits if_splits)

lemma process_pdf_keeps_settings:
  "settings (snd (process_pdf w c upl s)) = settings s"
  by (auto simp: pdf_defs prog_defs split: option.splits)

subsection \<open>What the page shows after a request\<close>

lemma strip_ends:
  "strip b = [] \<or> (\<not> isspace (hd (strip b)) \<and> \<not> isspace (last (strip b)))"
proof (cases "strip b = []")
  case True
  then show ?thesis by simp
next
  case False
  let ?d = "dropWhile isspace b"
  let ?x = "dropWhile isspace (rev ?d)"
  from False have x: "?x \<noteq> []" by (simp add: strip_def)
  then have "\<not> isspace (hd ?x)" by (rule hd_dropWhile)
  moreover from x have "last (strip b) = hd ?x" by (simp add: strip_def last_rev)
  ultimately have l: "\<not> isspace (last (strip b))" by simp
  have "rev (takeWhile isspace (rev ?d) @ ?x) = rev (rev ?d)"
    by (simp only: takeWhile_dropWhile_id)
  then have d: "?d = strip b @ rev (takeWhile isspace (rev ?d))"
    by (simp only: rev_append rev_rev_ident strip_def)
  from d False have "?d \<noteq> []" by (metis Nil_is_append_conv)
  then have "\<not> isspace (hd ?d)" by (rule hd_dropWhile)
  moreover from d False have "hd ?d = hd (strip b)" by (metis hd_append2)
  ultimately have "\<not> isspace (hd (strip b))" by simp
  with l show ?thesis by simp
qed

lemma query_branch_ok:
  assumes "\<not> retrieval_step_fails w query (Some i)"
  shows "query_branch w query (Some i) s =
           (Inr (), s\<lparr>trace := trace s @ UI (St_spinner (lit ''Searching...'')) #
              retrieval_trace w query i @
              result_trace (response_str (answer_of w (QueryEngine i 3 True) query))
                (map node_content
                   (take 3 (source_nodes (answer_of w (QueryEngine i 3 True) query))))\<rparr>)"
  by (simp add: query_branch_def bind_def ui_def log_def search_and_answer_ok [OF assms]
      render_result_trace)

lemma greeting_has_no_Error: "\<not> py_in (lit ''Error'') (lit ''A greeting.'')"
  by (simp add: lit_def startswith_def)

lemma growsI: "(\<And>s. \<exists>evs. trace (snd (m s)) = trace s @ evs) \<Longrightarrow> grows m"
  by (simp add: grows_def)

lemma growsD: "grows m \<Longrightarrow> \<exists>evs. trace (snd (m s)) = trace s @ evs"
  by (simp add: grows_def)

lemma grows_ret: "grows (ret v)"
  by (simp add: grows_def ret_def)

lemma grows_raise: "grows (raise e)"
  by (simp add: grows_def raise_def)

lemma grows_print: "grows (print l)"
  by (simp add: grows_def print_def log_def)

lemma grows_ui: "grows (ui c)"
  by (simp add: grows_def ui_def log_def)

lemma grows_extern: "grows (extern w c v)"
  by (simp add: grows_def extern_def log_def split: option.splits)

lemma grows_bind:
  assumes "grows m" and "\<And>v. grows (f v)"
  shows "grows (bind m f)"
proof (rule growsI)
  fix s
  obtain r s1 where m: "m s = (r, s1)" by (cases "m s")
  from growsD [OF assms(1), of s] m obtain evs where e: "trace s1 = trace s @ evs" by auto
  show "\<exists>evs. trace (snd (bind m f s)) = trace s @ evs"
  proof (cases r)
    case (Inl x)
    with m e show ?thesis by (simp add: bind_def)
  next
    case (Inr v)
    from growsD [OF assms(2), of v s1] obtain evs' where
      "trace (snd (f v s1)) = trace s1 @ evs'" by blast
    with m e Inr show ?thesis by (simp add: bind_def)
  qed
qed

lemma grows_try_except:
  assumes "grows m" and "\<And>e. grows (h e)"
  shows "grows (try_except m h)"
proof (rule growsI)
  fix s
  obtain r s1 where m: "m s = (r, s1)" by (cases "m s")
  from growsD [OF assms(1), of s] m obtain evs where e: "trace s1 = trace s @ evs" by auto
  show "\<exists>evs. trace (snd (try_except m h s)) = trace s @ evs"
  proof (cases r)
    case (Inl x)
    from growsD [OF assms(2), of x s1] obtain evs' where
      "trace (snd (h x s1)) = trace s1 @ evs'" by blast
    with m e Inl show ?thesis by (simp add: try_except_def)
  next
    case (Inr v)
    with m e show ?thesis by (simp add: try_except_def)
  qed
qed

lemma grows_collect_blocks: "grows (collect_blocks w ns acc)"
proof (induction ns arbitrary: acc)
  case Nil
  show ?case by (simp add: grows_ret)
next
  case (Cons n ns)
  show ?case by (simp, rule grows_bind [OF grows_extern]) (rule Cons.IH)
qed

lemma grows_render_result: "grows (render_result answer blocks)"
  by (simp add: grows_def render_result_trace)

lemma grows_load_index: "grows (load_index w c)"
  unfolding load_index_def
  by (intro grows_try_except grows_bind grows_print grows_extern grows_ret)

lemma grows_search_and_answer: "grows (search_and_answer_with_top_blocks w query index)"
proof -
  have "grows (as_query_engine w index 3 True)"
    by (cases index) (simp_all add: as_query_engine_def grows_extern grows_raise)
  then show ?thesis
    unfolding search_and_answer_with_top_blocks_def search_body_def
    by (intro grows_try_except grows_bind grows_print grows_extern grows_ret
        grows_collect_blocks)
qed

lemma grows_query_branch: "grows (query_branch w query index)"
  unfolding query_branch_def
  by (intro grows_bind grows_ui grows_search_and_answer grows_render_result)

lemma grows_query_section: "grows (query_section w c)"
  unfolding query_section_def
  by (auto intro!: grows_bind grows_ui grows_ret grows_load_index grows_query_branch)

lemma process_pdf_result_independent:
  "fst (process_pdf w c upl s) = fst (process_pdf w c upl s')"
  by (simp add: pdf_defs prog_defs split: option.splits)

lemma load_index_success:
  assumes "fails w (From_vector_store (vector_store c) (embed_model c)) = None"
  shows "load_index w c s =
           (Inr (Some (FromVectorStore (vector_store c) (embed_model c))),
            s\<lparr>trace := trace s @
              [Print (lit ''[DEBUG] Loading VectorStoreIndex from vector store''),
               Call (From_vector_store (vector_store c) (embed_model c))]\<rparr>)"
  using assms by (simp add: load_index_def prog_defs)

lemma app_body_unfold:
  "\<exists>s1. upload_section w c (log (UI (St_title
            (lit ''RAG Application with Streamlit, MongoDB, and LlamaIndex''))) s) = (Inr (), s1) \<and>
        app_body w c s = query_section w c s1"
proof -
  from returnsD [OF returns_upload_section, of w c]
  obtain s1 where "upload_section w c (log (UI (St_title
            (lit ''RAG Application with Streamlit, MongoDB, and LlamaIndex''))) s) = (Inr (), s1)"
    by auto
  then show ?thesis by (simp add: app_body_def bind_def ui_def)
qed

lemma app_body_shows_upload_error:
  assumes "uploaded w = Some upl" and "fst (process_pdf w c upl s) = Inl e"
  shows "UI (St_error (lit ''Error processing the PDF: '' @ exc_str e))
           \<in> set (trace (snd (app_body w c s)))"
proof -
  let ?s0 = "log (UI (St_title (lit ''RAG Application with Streamlit, MongoDB, and LlamaIndex''))) s"
  let ?s1 = "log (UI (St_file_uploader (lit ''Upload a PDF file'') (lit ''pdf''))) ?s0"
  let ?s2 = "log (UI (St_spinner (lit ''Processing PDF...''))) ?s1"
  from assms(2) have "fst (process_pdf w c upl ?s2) = Inl e"
    by (simp add: process_pdf_result_independent [of w c upl ?s2 s])
  then have "process_pdf w c upl ?s2 = (Inl e, snd (process_pdf w c upl ?s2))"
    by (simp add: prod_eq_iff)
  from upload_branch_failure [OF this]
  have u: "upload_section w c ?s0 =
      (Inr (), log (UI (St_error (lit ''Error processing the PDF: '' @ exc_str e)))
         (snd (process_pdf w c upl ?s2)))"
    by (simp add: upload_section_def bind_def ui_def assms(1))
  then have a: "app_body w c s =
      query_section w c (log (UI (St_error (lit ''Error processing the PDF: '' @ exc_str e)))
         (snd (process_pdf w c upl ?s2)))"
    by (simp add: app_body_def bind_def ui_def)
  from growsD [OF grows_query_section, of w c
       "log (UI (St_error (lit ''Error processing the PDF: '' @ exc_str e)))
         (snd (process_pdf w c upl ?s2))"]
  show ?thesis by (auto simp: a log_def)
qed

lemma app_body_shows_sentinel:
  assumes "typed_query w \<noteq> []"
    and "fails w (From_vector_store (vector_store c) (embed_model c)) = None"
    and "retrieval_step_fails w (typed_query w)
           (Some (FromVectorStore (vector_store c) (embed_model c)))"
  shows "\<exists>s1. app_body w c s =
           (Inr (), log (UI (St_error (lit ''Error: Unable to process the query''))) s1)"
proof -
  from app_body_unfold [of w c s] obtain s1 where a: "app_body w c s = query_section w c s1"
    by blast
  from query_branch_failure [OF assms(3)] assms(1)
  show ?thesis
    by (simp add: a query_section_def bind_def load_index_success [OF assms(2)] ui_def)
qed

section \<open>Retrieval never raises and fails with the sentinel\<close>

text \<open>
  Claim C1. For every query and every index argument (also \<open>None\<close>),
  \<open>search_and_answer_with_top_blocks\<close> returns a value, never an exception; and whenever a
  step of the retrieval raises, the value is exactly the pair of the text
  "Error: Unable to process the query" and the empty list.
\<close>

theorem search_and_answer_sentinel:
  "(\<exists>r. fst (search_and_answer_with_top_blocks w query index s) = Inr r) \<and>
   (retrieval_step_fails w query index \<longrightarrow>
      fst (search_and_answer_with_top_blocks w query index s) =
        Inr (lit ''Error: Unable to process the query'', []))"
proof
  show "\<exists>r. fst (search_and_answer_with_top_blocks w query index s) = Inr r"
    by (cases "search_body w query index s")
       (auto simp: search_and_answer_with_top_blocks_def try_except_def bind_def print_def ret_def
             split: sum.splits)
next
  show "retrieval_step_fails w query index \<longrightarrow>
      fst (search_and_answer_with_top_blocks w query index s) =
        Inr (lit ''Error: Unable to process the query'', [])"
  proof
    assume "retrieval_step_fails w query index"
    from search_body_fail [OF this] obtain e s' where "search_body w query index s = (Inl e, s')"
      by blast
    then show "fst (search_and_answer_with_top_blocks w query index s) =
        Inr (lit ''Error: Unable to process the query'', [])"
      by (simp add: search_and_answer_with_top_blocks_def try_except_def bind_def print_def ret_def
          sentinel_def)
  qed
qed

theorem search_and_answer_sentinel_witness:
  "retrieval_step_fails query_fails_world (lit ''What is it?'') (Some example_index) \<and>
   fst (search_and_answer_with_top_blocks query_fails_world (lit ''What is it?'')
          (Some example_index) example_state) =
     Inr (lit ''Error: Unable to process the query'', [])"
  using search_and_answer_sentinel
    [of query_fails_world "lit ''What is it?''" "Some example_index" example_state]
  by (simp add: retrieval_step_fails_def query_fails_world_def)

section \<open>Startup without a connection string\<close>

text \<open>
  Claim C4. When \<open>MONGODB_URI\<close> is absent from the environment, the run of the script
  ends in the \<open>ValueError\<close> raised by \<open>initialize_mongodb\<close>. The whole trace of the run is
  \<open>load_dotenv\<close> and the \<open>os.getenv\<close> lookup: no \<open>MongoClient\<close> (or any other handle) was
  constructed, nothing was rendered on the page, no later step ran, and the files and
  the settings are untouched.
\<close>

theorem startup_fails_without_uri:
  assumes "environ w (lit ''MONGODB_URI'') = None"
  shows "main w (initial_state fls st) =
           (Inl (Exc ValueError (lit ''MONGODB_URI not found in environment variables'')),
            \<lparr>trace = [Call Load_dotenv, Call (Getenv (lit ''MONGODB_URI''))],
             files = fls, settings = st\<rparr>)"
  using assms
  by (simp add: main_def startup_def initialize_mongodb_def missing_uri_error_def prog_defs
      initial_state_def)

theorem startup_fails_without_uri_witness:
  "environ no_uri_world (lit ''MONGODB_URI'') = None \<and>
   main no_uri_world (initial_state Map.empty example_settings) =
     (Inl (Exc ValueError (lit ''MONGODB_URI not found in environment variables'')),
      \<lparr>trace = [Call Load_dotenv, Call (Getenv (lit ''MONGODB_URI''))],
       files = Map.empty, settings = example_settings\<rparr>)"
proof -
  have h: "environ no_uri_world (lit ''MONGODB_URI'') = None"
    by (simp add: no_uri_world_def)
  from h startup_fails_without_uri [OF h, of Map.empty example_settings] show ?thesis
    by simp
qed

section \<open>The temporary file of an upload\<close>

text \<open>
  Claim C2 says that the temporary file that stages the upload is deleted on every exit
  path of \<open>process_pdf\<close>. The source opens it with \<open>delete=False\<close> and removes it with
  \<open>os.unlink\<close> as the last step of the \<open>try\<close> body only; the handler prints and re-raises.
  So the file is gone after every run that returns (\<open>process_pdf_success_removes_temp\<close>)
  and is still on disk after every run that raises once the file was created
  (\<open>process_pdf_failure_keeps_temp\<close>).
\<close>

text \<open>
  Claim C2 at a concrete input: the reader raises on the staged file; \<open>process_pdf\<close>
  raises that exception and the temporary file, with the uploaded bytes, is still there.
\<close>

theorem process_pdf_leaves_temp_file_on_failure:
  "fst (process_pdf load_data_fails_world example_ctx example_file example_state) = Inl example_error \<and>
   files (snd (process_pdf load_data_fails_world example_ctx example_file example_state))
     (lit ''/tmp/tmpk3v9.pdf'') = Some [37, 80, 68, 70]"
  by (simp add: pdf_defs prog_defs load_data_fails_world_def example_world_def example_file_def)

section \<open>A query when the index could not be loaded\<close>

text \<open>
  Claim C3 says that a query issued when index loading yields no usable index gets the
  sentinel pair back. The script guards the query with \<open>if query and index\<close>: when
  \<open>load_index\<close> has caught the failure and returned \<open>None\<close>, the retrieval function
  is not called. In the run below the index is unreachable and the user typed a question;
  the run ends normally and the page shows the title, the uploader and the input box,
  and no error.
\<close>

theorem query_without_index_shows_no_sentinel:
  "typed_query index_unreachable_world = lit ''What is it?'' \<and>
   fst (load_index index_unreachable_world example_ctx example_state) = Inr None \<and>
   fst (main index_unreachable_world example_state) = Inr () \<and>
   ui_calls (trace (snd (main index_unreachable_world example_state))) =
     [St_title (lit ''RAG Application with Streamlit, MongoDB, and LlamaIndex''),
      St_file_uploader (lit ''Upload a PDF file'') (lit ''pdf''),
      St_text_input (lit ''Ask a question about the uploaded documents:'')]"
  by (simp add: main_def startup_def initialize_mongodb_def initialize_embed_model_def
      initialize_vector_store_def app_body_def upload_section_def query_section_def
      load_index_def prog_defs index_unreachable_world_def example_world_def example_state_def
      initial_state_def)

text \<open>
  Claim C3 as amended. When loading the index raises, \<open>load_index\<close> logs the error and
  returns \<open>None\<close>, and the rest of the script only draws the input box: no retrieval, no
  message about the query. The sentinel pair is what \<open>search_and_answer_with_top_blocks\<close>
  itself returns when it is called with \<open>None\<close> as the index.
\<close>

theorem unusable_index_skips_query:
  "(fails w (From_vector_store (vector_store c) (embed_model c)) = Some e \<longrightarrow>
      query_section w c s =
        (Inr (), s\<lparr>trace := trace s @
           [Print (lit ''[DEBUG] Loading VectorStoreIndex from vector store''),
            Call (From_vector_store (vector_store c) (embed_model c)),
            Print (lit ''[ERROR] Index loading failed: '' @ exc_str e),
            UI (St_text_input (lit ''Ask a question about the uploaded documents:''))]\<rparr>)) \<and>
   fst (search_and_answer_with_top_blocks w query None s) =
     Inr (lit ''Error: Unable to process the query'', [])"
proof
  show "fails w (From_vector_store (vector_store c) (embed_model c)) = Some e \<longrightarrow>
      query_section w c s =
        (Inr (), s\<lparr>trace := trace s @
           [Print (lit ''[DEBUG] Loading VectorStoreIndex from vector store''),
            Call (From_vector_store (vector_store c) (embed_model c)),
            Print (lit ''[ERROR] Index loading failed: '' @ exc_str e),
            UI (St_text_input (lit ''Ask a question about the uploaded documents:''))]\<rparr>)"
    by (simp add: query_section_def bind_def load_index_failure ui_def log_def ret_def)
next
  have "retrieval_step_fails w query None" by (simp add: retrieval_step_fails_def)
  from search_and_answer_fail [OF this, of s]
  show "fst (search_and_answer_with_top_blocks w query None s) =
     Inr (lit ''Error: Unable to process the query'', [])"
    by (auto simp: sentinel_def)
qed

theorem unusable_index_skips_query_witness:
  "fails index_unreachable_world
     (From_vector_store (vector_store example_ctx) (embed_model example_ctx)) = Some example_error \<and>
   query_section index_unreachable_world example_ctx example_state =
     (Inr (), example_state\<lparr>trace := trace example_state @
        [Print (lit ''[DEBUG] Loading VectorStoreIndex from vector store''),
         Call (From_vector_store (vector_store example_ctx) (embed_model example_ctx)),
         Print (lit ''[ERROR] Index loading failed: '' @ exc_str example_error),
         UI (St_text_input (lit ''Ask a question about the uploaded documents:''))]\<rparr>) \<and>
   fst (search_and_answer_with_top_blocks index_unreachable_world (lit ''What is it?'') None
          example_state) = Inr (lit ''Error: Unable to process the query'', [])"
proof -
  have h: "fails index_unreachable_world
     (From_vector_store (vector_store example_ctx) (embed_model example_ctx)) = Some example_error"
    by (simp add: index_unreachable_world_def)
  from h unusable_index_skips_query
    [of index_unreachable_world example_ctx example_error example_state "lit ''What is it?''"]
  show ?thesis by simp
qed

section \<open>A successful retrieval\<close>

text \<open>
  Claim C5 says that for every successful retrieval the returned source chunks are each
  rendered verbatim after whitespace trimming. The page tests the answer for the
  substring "Error" first. In the run below the retrieval succeeds with one source
  chunk and an answer that begins "Error codes are listed ..."; the function returns
  the answer with the chunk, and the page shows the spinner and the answer as an error:
  the chunk is not rendered.
\<close>

theorem error_answer_renders_no_block:
  "\<not> retrieval_step_fails error_answer_world (lit ''What is it?'') (Some example_index) \<and>
   fst (search_and_answer_with_top_blocks error_answer_world (lit ''What is it?'')
          (Some example_index) example_state) =
     Inr (lit ''Error codes are listed in section 2.'', [lit '' Hello world.  '']) \<and>
   ui_calls (trace (snd (query_branch error_answer_world (lit ''What is it?'')
          (Some example_index) example_state))) =
     [St_spinner (lit ''Searching...''), St_error (lit ''Error codes are listed in section 2.'')]"
proof -
  have h: "\<not> retrieval_step_fails error_answer_world (lit ''What is it?'') (Some example_index)"
    by (simp add: retrieval_step_fails_def error_answer_world_def example_world_def)
  from search_and_answer_ok [OF h, of example_state] query_branch_ok [OF h, of example_state]
    error_answer_has_Error h
  show ?thesis
    by (simp add: error_answer_world_def example_world_def example_response_def
        retrieval_trace_def result_trace_def example_state_def initial_state_def)
qed

text \<open>
  Claim C5 as amended. When no step of the retrieval raises, the query engine was built
  with \<open>similarity_top_k = 3\<close> and asked the query, and the function returns the generated
  answer with the contents of the first three source nodes at most, in their order.
  When the answer does not contain the substring "Error", the query branch then shows
  the answer and, numbered from 1 and in order, each returned chunk inside a code fence
  after \<open>strip()\<close> (or "No sources found." when there is none). \<open>strip()\<close> removes
  whitespace at both ends and nothing else: what it leaves has no whitespace at either
  end.
\<close>

theorem successful_retrieval_rendered:
  assumes "\<not> retrieval_step_fails w query (Some i)"
    and "r = answer_of w (QueryEngine i 3 True) query"
    and "blocks = map node_content (take 3 (source_nodes r))"
  shows "search_and_answer_with_top_blocks w query (Some i) s =
           (Inr (response_str r, blocks), s\<lparr>trace := trace s @ retrieval_trace w query i\<rparr>) \<and>
         Call (As_query_engine i 3 True)
           \<in> set (trace (snd (search_and_answer_with_top_blocks w query (Some i) s))) \<and>
         Call (Query (QueryEngine i 3 True) query)
           \<in> set (trace (snd (search_and_answer_with_top_blocks w query (Some i) s))) \<and>
         length blocks \<le> 3 \<and>
         (\<not> py_in (lit ''Error'') (response_str r) \<longrightarrow>
            query_branch w query (Some i) s =
              (Inr (), s\<lparr>trace := trace s @ UI (St_spinner (lit ''Searching...'')) #
                 retrieval_trace w query i @
                 UI (St_write [lit ''**Answer:**'', response_str r]) #
                 (if blocks = [] then [UI (St_write [lit ''No sources found.''])]
                  else UI (St_write [lit ''**Top 3 Blocks Used (Sources):**'']) #
                       map (\<lambda>(j, b). UI (St_markdown
                              (lit ''**Block '' @ str_nat j @ lit '':**'' @ [10] @ [96, 96, 96] @
                               [10] @ strip b @ [10] @ [96, 96, 96])))
                         (zip [1..<1 + length blocks] blocks))\<rparr>)) \<and>
         (\<forall>b. (\<exists>pre post. b = pre @ strip b @ post \<and> list_all isspace pre \<and>
                   list_all isspace post) \<and>
              (strip b = [] \<or> (\<not> isspace (hd (strip b)) \<and> \<not> isspace (last (strip b)))))"
  using assms(2,3) search_and_answer_ok [OF assms(1), of s] query_branch_ok [OF assms(1), of s]
    strip_decomp strip_ends
  by (simp add: retrieval_trace_def result_trace_def blocks_trace_def block_markdown_def)

theorem successful_retrieval_rendered_witness:
  "\<not> retrieval_step_fails example_world (lit ''What is it?'') (Some example_index) \<and>
   \<not> py_in (lit ''Error'') (lit ''A greeting.'') \<and>
   fst (search_and_answer_with_top_blocks example_world (lit ''What is it?'') (Some example_index)
       example_state) = Inr (lit ''A greeting.'', [lit '' Hello world.  '']) \<and>
   ui_calls (trace (snd (query_branch example_world (lit ''What is it?'') (Some example_index)
       example_state))) =
     [St_spinner (lit ''Searching...''),
      St_write [lit ''**Answer:**'', lit ''A greeting.''],
      St_write [lit ''**Top 3 Blocks Used (Sources):**''],
      St_markdown (lit ''**Block 1:**'' @ [10] @ [96, 96, 96] @ [10] @ lit ''Hello world.'' @
                   [10] @ [96, 96, 96])]"
proof -
  have h: "\<not> retrieval_step_fails example_world (lit ''What is it?'') (Some example_index)"
    by (simp add: retrieval_step_fails_def example_world_def)
  have r: "example_response =
      answer_of example_world (QueryEngine example_index 3 True) (lit ''What is it?'')"
    by (simp add: example_world_def)
  have b: "[lit '' Hello world.  ''] = map node_content (take 3 (source_nodes example_response))"
    by (simp add: example_response_def)
  have s: "strip (lit '' Hello world.  '') = lit ''Hello world.''"
    by (simp add: strip_def lit_def isspace_def)
  have n: "str_nat 1 = lit ''1''"
    by (simp add: str_nat.simps lit_def)
  have g: "\<not> py_in (lit ''Error'') (response_str example_response)"
    using greeting_has_no_Error by (simp add: example_response_def)
  from successful_retrieval_rendered [OF h r b, of example_state] g s n h greeting_has_no_Error
  show ?thesis
    by (simp add: example_world_def example_response_def retrieval_trace_def example_state_def
        initial_state_def lit_def)
qed

section \<open>Errors of the vector store\<close>




section \<open>No error of a request leaves the script\<close>

text \<open>
  Claim C8 says that every error of a request is caught and converted into a message for
  the user. Two kinds of error are caught and only printed. In the run below a PDF is
  uploaded and a question is typed; \<open>count_documents\<close> raises after the ingestion and
  loading the index raises. The script returns normally; the page shows the success
  message of the upload and the input box, and no message about either error.
\<close>

theorem logged_errors_show_no_message:
  "uploaded silent_errors_world = Some example_file \<and>
   typed_query silent_errors_world = lit ''What is it?'' \<and>
   fails silent_errors_world (Count_documents (collection example_ctx)) = Some example_error \<and>
   fails silent_errors_world
     (From_vector_store (vector_store example_ctx) (embed_model example_ctx)) =
     Some example_error \<and>
   Call (Count_documents (collection example_ctx))
     \<in> set (trace (snd (app_body silent_errors_world example_ctx example_state))) \<and>
   Call (From_vector_store (vector_store example_ctx) (embed_model example_ctx))
     \<in> set (trace (snd (app_body silent_errors_world example_ctx example_state))) \<and>
   fst (app_body silent_errors_world example_ctx example_state) = Inr () \<and>
   ui_calls (trace (snd (app_body silent_errors_world example_ctx example_state))) =
     [St_title (lit ''RAG Application with Streamlit, MongoDB, and LlamaIndex''),
      St_file_uploader (lit ''Upload a PDF file'') (lit ''pdf''),
      St_spinner (lit ''Processing PDF...''),
      St_success (lit ''PDF processed and saved successfully. Documents processed: '' @
                  str_nat 1),
      St_text_input (lit ''Ask a question about the uploaded documents:'')]"
  by (simp add: app_body_def upload_section_def upload_branch_def check_vector_store_def
      query_section_def load_index_def pdf_defs prog_defs silent_errors_world_def
      example_world_def example_state_def initial_state_def)

text \<open>
  Claim C8 as amended. Once startup has produced the module-level objects, the rest of
  the script returns from every state, whatever the external calls do: no exception
  leaves it. When \<open>process_pdf\<close> raises for the uploaded file, the page of that run
  shows the exception with \<open>st.error\<close>; when the index loads and a step of the retrieval
  raises for the typed query, the run ends with \<open>st.error\<close> of the sentinel text. An
  error of \<open>count_documents\<close> after the ingestion, and an error while the index is
  loaded, are caught and printed to the log only: \<open>check_vector_store\<close> returns without
  a page call, and after a failed load the script only draws the input box.
\<close>

theorem request_errors_caught_and_shown_or_logged:
  "(\<exists>s'. app_body w c s = (Inr (), s')) \<and>
   (uploaded w = Some upl \<and> fst (process_pdf w c upl s) = Inl e \<longrightarrow>
      UI (St_error (lit ''Error processing the PDF: '' @ exc_str e))
        \<in> set (trace (snd (app_body w c s)))) \<and>
   (typed_query w \<noteq> [] \<and>
    fails w (From_vector_store (vector_store c) (embed_model c)) = None \<and>
    retrieval_step_fails w (typed_query w)
      (Some (FromVectorStore (vector_store c) (embed_model c))) \<longrightarrow>
      (\<exists>s1. app_body w c s =
         (Inr (), log (UI (St_error (lit ''Error: Unable to process the query''))) s1))) \<and>
   (fails w (Count_documents (collection c)) = Some e \<longrightarrow>
      check_vector_store w c s =
        (Inr (), s\<lparr>trace := trace s @
           [Call (Count_documents (collection c)),
            Print (lit ''[ERROR] Document count failed: '' @ exc_str e)]\<rparr>)) \<and>
   (fails w (From_vector_store (vector_store c) (embed_model c)) = Some e \<longrightarrow>
      query_section w c s =
        (Inr (), s\<lparr>trace := trace s @
           [Print (lit ''[DEBUG] Loading VectorStoreIndex from vector store''),
            Call (From_vector_store (vector_store c) (embed_model c)),
            Print (lit ''[ERROR] Index loading failed: '' @ exc_str e),
            UI (St_text_input (lit ''Ask a question about the uploaded documents:''))]\<rparr>))"
proof (intro conjI impI)
  show "\<exists>s'. app_body w c s = (Inr (), s')"
    using returnsD [OF returns_app_body, of w c s] by simp
next
  assume "uploaded w = Some upl \<and> fst (process_pdf w c upl s) = Inl e"
  then show "UI (St_error (lit ''Error processing the PDF: '' @ exc_str e))
        \<in> set (trace (snd (app_body w c s)))"
    using app_body_shows_upload_error by blast
next
  assume "typed_query w \<noteq> [] \<and>
    fails w (From_vector_store (vector_store c) (embed_model c)) = None \<and>
    retrieval_step_fails w (typed_query w)
      (Some (FromVectorStore (vector_store c) (embed_model c)))"
  then show "\<exists>s1. app_body w c s =
         (Inr (), log (UI (St_error (lit ''Error: Unable to process the query''))) s1)"
    using app_body_shows_sentinel by blast
next
  assume "fails w (Count_documents (collection c)) = Some e"
  then show "check_vector_store w c s =
        (Inr (), s\<lparr>trace := trace s @
           [Call (Count_documents (collection c)),
            Print (lit ''[ERROR] Document count failed: '' @ exc_str e)]\<rparr>)"
    by (rule check_vector_store_failure)
next
  assume "fails w (From_vector_store (vector_store c) (embed_model c)) = Some e"
  then show "query_section w c s =
        (Inr (), s\<lparr>trace := trace s @
           [Print (lit ''[DEBUG] Loading VectorStoreIndex from vector store''),
            Call (From_vector_store (vector_store c) (embed_model c)),
            Print (lit ''[ERROR] Index loading failed: '' @ exc_str e),
            UI (St_text_input (lit ''Ask a question about the uploaded documents:''))]\<rparr>)"
    by (simp add: query_section_def bind_def load_index_failure ui_def log_def ret_def)
qed

theorem request_errors_caught_and_shown_or_logged_witness:
  "uploaded requests_fail_world = Some example_file \<and>
   fst (process_pdf requests_fail_world example_ctx example_file example_state) =
     Inl example_error \<and>
   typed_query requests_fail_world \<noteq> [] \<and>
   fails requests_fail_world
     (From_vector_store (vector_store example_ctx) (embed_model example_ctx)) = None \<and>
   retrieval_step_fails requests_fail_world (typed_query requests_fail_world)
     (Some (FromVectorStore (vector_store example_ctx) (embed_model example_ctx))) \<and>
   fails silent_errors_world (Count_documents (collection example_ctx)) = Some example_error \<and>
   fails silent_errors_world
     (From_vector_store (vector_store example_ctx) (embed_model example_ctx)) =
     Some example_error \<and>
   (\<exists>s'. app_body requests_fail_world example_ctx example_state = (Inr (), s')) \<and>
   UI (St_error (lit ''Error processing the PDF: '' @ exc_str example_error))
     \<in> set (trace (snd (app_body requests_fail_world example_ctx example_state))) \<and>
   (\<exists>s1. app_body requests_fail_world example_ctx example_state =
      (Inr (), log (UI (St_error (lit ''Error: Unable to process the query''))) s1)) \<and>
   fst (check_vector_store silent_errors_world example_ctx example_state) = Inr () \<and>
   fst (query_section silent_errors_world example_ctx example_state) = Inr ()"
proof -
  have a: "uploaded requests_fail_world = Some example_file"
    and b: "fst (process_pdf requests_fail_world example_ctx example_file example_state) =
      Inl example_error"
    and c: "typed_query requests_fail_world \<noteq> []"
    and d: "fails requests_fail_world
      (From_vector_store (vector_store example_ctx) (embed_model example_ctx)) = None"
    and e: "retrieval_step_fails requests_fail_world (typed_query requests_fail_world)
      (Some (FromVectorStore (vector_store example_ctx) (embed_model example_ctx)))"
    by (simp_all add: requests_fail_world_def example_world_def pdf_defs prog_defs
        retrieval_step_fails_def)
  have f: "fails silent_errors_world (Count_documents (collection example_ctx)) =
      Some example_error"
    and g: "fails silent_errors_world
      (From_vector_store (vector_store example_ctx) (embed_model example_ctx)) =
      Some example_error"
    by (simp_all add: silent_errors_world_def)
  from a b c d e
    request_errors_caught_and_shown_or_logged
      [of requests_fail_world example_ctx example_state example_file example_error]
  have 1: "\<exists>s'. app_body requests_fail_world example_ctx example_state = (Inr (), s')"
    and 2: "UI (St_error (lit ''Error processing the PDF: '' @ exc_str example_error))
      \<in> set (trace (snd (app_body requests_fail_world example_ctx example_state)))"
    and 3: "\<exists>s1. app_body requests_fail_world example_ctx example_state =
      (Inr (), log (UI (St_error (lit ''Error: Unable to process the query''))) s1)"
    by blast+
  from f g
    request_errors_caught_and_shown_or_logged
      [of silent_errors_world example_ctx example_state example_file example_error]
  have 4: "fst (check_vector_store silent_errors_world example_ctx example_state) = Inr ()"
    and 5: "fst (query_section silent_errors_world example_ctx example_state) = Inr ()"
    by simp_all
  from a b c d e f g 1 2 3 4 5 show ?thesis by blast
qed

section \<open>The substring "Error" decides how a result is shown\<close>

text \<open>
  Claim C9. For every answer and every list of blocks, the page shows the answer with
  \<open>st.error\<close> and nothing else exactly when the answer contains "Error" as a substring;
  otherwise it shows the answer and the blocks (or "No sources found."). So when the
  retrieval succeeds with an answer that contains "Error", the query branch ends with
  \<open>st.error\<close> of that answer and renders no block.
\<close>

theorem error_substring_gates_rendering:
  "render_result answer blocks s =
     (Inr (), s\<lparr>trace := trace s @
        (if py_in (lit ''Error'') answer then [UI (St_error answer)]
         else UI (St_write [lit ''**Answer:**'', answer]) #
              (if blocks = [] then [UI (St_write [lit ''No sources found.''])]
               else UI (St_write [lit ''**Top 3 Blocks Used (Sources):**'']) #
                    map (\<lambda>(j, b). UI (St_markdown (block_markdown j (strip b))))
                      (zip [1..<1 + length blocks] blocks)))\<rparr>) \<and>
   (py_in (lit ''Error'') answer \<longleftrightarrow> (\<exists>pre post. answer = pre @ lit ''Error'' @ post)) \<and>
   (\<not> retrieval_step_fails w query (Some i) \<and>
    py_in (lit ''Error'') (response_str (answer_of w (QueryEngine i 3 True) query)) \<longrightarrow>
      query_branch w query (Some i) s =
        (Inr (), s\<lparr>trace := trace s @ UI (St_spinner (lit ''Searching...'')) #
           retrieval_trace w query i @
           [UI (St_error (response_str (answer_of w (QueryEngine i 3 True) query)))]\<rparr>))"
  using render_result_trace [of answer blocks s] py_in_iff [of "lit ''Error''" answer]
    query_branch_error_answer [of w query i s]
  by (simp add: result_trace_def blocks_trace_def)

theorem error_substring_gates_rendering_witness:
  "\<not> retrieval_step_fails error_answer_world (lit ''What is it?'') (Some example_index) \<and>
   py_in (lit ''Error'') (lit ''Error codes are listed in section 2.'') \<and>
   query_branch error_answer_world (lit ''What is it?'') (Some example_index) example_state =
     (Inr (), example_state\<lparr>trace := trace example_state @ UI (St_spinner (lit ''Searching...'')) #
        retrieval_trace error_answer_world (lit ''What is it?'') example_index @
        [UI (St_error (lit ''Error codes are listed in section 2.''))]\<rparr>)"
  using error_substring_gates_rendering
    [of "lit ''Error codes are listed in section 2.''" "[]" example_state error_answer_world
        "lit ''What is it?''" example_index]
    error_answer_has_Error
  by (simp add: retrieval_step_fails_def error_answer_world_def example_world_def
      example_response_def)

section \<open>Every search goes through a store constructed with \<open>exact="True"\<close>\<close>

text \<open>
  Claim C10. In every run of the script, whatever the external calls do, each
  construction of \<open>MongoDBAtlasVectorSearch\<close> passes the string "True" as \<open>exact\<close>, and
  each query is put to a query engine over an index loaded from a vector store that
  was constructed with \<open>exact = "True"\<close>. (What the library does with the keyword is
  outside \<open>main.py\<close>.)
\<close>

theorem searches_use_exact_store:
  assumes "main w (initial_state fls st) = (r, s')"
  shows "(\<forall>kw. Call (MongoDBAtlasVectorSearch_init kw) \<in> set (trace s') \<longrightarrow>
            exact kw = lit ''True'') \<and>
         (\<forall>qe q. Call (Query qe q) \<in> set (trace s') \<longrightarrow>
            (\<exists>kw em k v. qe = QueryEngine (FromVectorStore (MongoDBAtlasVectorSearch kw) em) k v \<and>
               exact kw = lit ''True''))"
proof (intro conjI allI impI)
  fix kw assume "Call (MongoDBAtlasVectorSearch_init kw) \<in> set (trace s')"
  with exact_trace_main [OF assms] have "exact_event (Call (MongoDBAtlasVectorSearch_init kw))"
    by (auto simp: list_all_iff)
  then show "exact kw = lit ''True''" by simp
next
  fix qe q assume "Call (Query qe q) \<in> set (trace s')"
  with exact_trace_main [OF assms] have "exact_call (Query qe q)"
    by (auto simp: list_all_iff)
  then show "\<exists>kw em k v. qe = QueryEngine (FromVectorStore (MongoDBAtlasVectorSearch kw) em) k v \<and>
               exact kw = lit ''True''"
    by (cases "Query qe q" rule: exact_call.cases) auto
qed

theorem searches_use_exact_store_witness:
  "Call (MongoDBAtlasVectorSearch_init
           (vector_store_kwargs (MongoClient (lit ''mongodb://localhost:27017''))
              (lit ''Lorenzo'') (lit ''RAG'')))
     \<in> set (trace (snd (main (example_world\<lparr>uploaded := None\<rparr>) example_state))) \<and>
   exact (vector_store_kwargs (MongoClient (lit ''mongodb://localhost:27017''))
            (lit ''Lorenzo'') (lit ''RAG'')) = lit ''True'' \<and>
   Call (Query (QueryEngine example_index 3 True) (lit ''What is it?''))
     \<in> set (trace (snd (main (example_world\<lparr>uploaded := None\<rparr>) example_state))) \<and>
   (\<exists>kw em k v.
      QueryEngine example_index 3 True =
        QueryEngine (FromVectorStore (MongoDBAtlasVectorSearch kw) em) k v \<and>
      exact kw = lit ''True'')"
proof -
  let ?run = "main (example_world\<lparr>uploaded := None\<rparr>) (initial_state Map.empty example_settings)"
  have run: "?run = (fst ?run, snd ?run)" by simp
  have m: "Call (MongoDBAtlasVectorSearch_init
           (vector_store_kwargs (MongoClient (lit ''mongodb://localhost:27017''))
              (lit ''Lorenzo'') (lit ''RAG''))) \<in> set (trace (snd ?run)) \<and>
      Call (Query (QueryEngine example_index 3 True) (lit ''What is it?''))
        \<in> set (trace (snd ?run))"
    by (simp add: main_def startup_def initialize_mongodb_def initialize_embed_model_def
        initialize_vector_store_def app_body_def upload_section_def query_section_def
        load_index_def query_branch_def search_and_answer_with_top_blocks_def search_body_def
        as_query_engine_def render_result_def prog_defs example_world_def example_response_def
        initial_state_def example_index_def example_ctx_def example_vector_store_def)
  from searches_use_exact_store [OF run] m
  have "exact (vector_store_kwargs (MongoClient (lit ''mongodb://localhost:27017''))
            (lit ''Lorenzo'') (lit ''RAG'')) = lit ''True''"
    and "\<exists>kw em k v.
      QueryEngine example_index 3 True =
        QueryEngine (FromVectorStore (MongoDBAtlasVectorSearch kw) em) k v \<and>
      exact kw = lit ''True''"
    by blast+
  with m show ?thesis
    by (simp add: example_state_def)
qed

end
